theory Spec2Isabelle
  imports Main "HOL-Library.Word"
begin

section \<open>Write barrier policies (RecyclerPointers.h, lines 12-99)\<close>

text \<open>
  The header decides by template specialisation whether a store into recycler memory
  needs a write barrier. Types and allocator classes are the arguments of these
  templates; they are modelled as two datatypes, and every template as a function on
  them, one equation per specialisation, the most specialised first.

  The two tag structs \<open>_write_barrier_policy\<close> and \<open>_no_write_barrier_policy\<close> lose
  their leading underscore, which an Isabelle name cannot start with.
\<close>

datatype policy = write_barrier_policy | no_write_barrier_policy

text \<open>
  The allocator classes. \<open>Recycler\<close> and \<open>RecyclerNonLeafAllocator\<close> are declared
  at the top of the header, \<open>RecyclerLeafAllocator\<close> is named in its comment on
  allocator types, and every other allocator class (arena, heap, ...) is
  \<open>OtherAllocator\<close> with its name.
\<close>

datatype allocator =
    Recycler
  | RecyclerNonLeafAllocator
  | RecyclerLeafAllocator
  | OtherAllocator string

text \<open>
  The types that can stand for the template parameter \<open>T\<close>: \<open>int\<close>, a pointer
  \<open>T*\<close>, the three wrapper templates, the two policy tags (which are structs, and
  so types), and any other type by name.
\<close>

datatype ctype =
    TInt
  | TPointer ctype
  | TWriteBarrierPtr ctype
  | TNoWriteBarrierPtr ctype
  | TNoWriteBarrierField ctype
  | TPolicy policy
  | TNamed string

text \<open>Whether a type is a pointer type \<open>X*\<close>, and whether it is a \<open>WriteBarrierPtr<X>\<close>.\<close>

fun is_pointer :: "ctype \<Rightarrow> bool" where
  "is_pointer (TPointer X) = True"
| "is_pointer T = False"

fun is_WriteBarrierPtr :: "ctype \<Rightarrow> bool" where
  "is_WriteBarrierPtr (TWriteBarrierPtr X) = True"
| "is_WriteBarrierPtr T = False"

text \<open>\<open>TypeWriteBarrierPolicy<T>::Policy\<close>, lines 22-29.\<close>

fun TypeWriteBarrierPolicy :: "ctype \<Rightarrow> policy" where
  "TypeWriteBarrierPolicy (TPointer T) = write_barrier_policy"
| "TypeWriteBarrierPolicy (TWriteBarrierPtr T) = write_barrier_policy"
| "TypeWriteBarrierPolicy (TPolicy write_barrier_policy) = write_barrier_policy"
| "TypeWriteBarrierPolicy T = no_write_barrier_policy"

text \<open>\<open>_AllocatorTypeWriteBarrierPolicy<AllocatorType>::Policy\<close>, lines 37-40.\<close>

fun AllocatorTypeWriteBarrierPolicy :: "allocator \<Rightarrow> policy" where
  "AllocatorTypeWriteBarrierPolicy Recycler = write_barrier_policy"
| "AllocatorTypeWriteBarrierPolicy AllocatorType = no_write_barrier_policy"

text \<open>\<open>_AndWriteBarrierPolicy<Policy1, Policy2>::Policy\<close>, lines 42-48.\<close>

fun AndWriteBarrierPolicy :: "policy \<Rightarrow> policy \<Rightarrow> policy" where
  "AndWriteBarrierPolicy write_barrier_policy write_barrier_policy = write_barrier_policy"
| "AndWriteBarrierPolicy Policy1 Policy2 = no_write_barrier_policy"

text \<open>
  \<open>AllocatorInfo<Allocator, void>::AllocatorType\<close> (line 56) is declared in another
  header. The functions below take it as the parameter \<open>info\<close>, so that every
  theorem about them holds whatever that header says.
\<close>

type_synonym allocator_info = "allocator \<Rightarrow> allocator"

text \<open>
  The primary template of \<open>AllocatorWriteBarrierPolicy\<close>, lines 53-60: the allocator's
  policy and the type's policy, combined.
\<close>

definition AllocatorWriteBarrierPolicy_primary ::
  "allocator_info \<Rightarrow> allocator \<Rightarrow> ctype \<Rightarrow> policy" where
  "AllocatorWriteBarrierPolicy_primary info Allocator T =
     AndWriteBarrierPolicy
       (AllocatorTypeWriteBarrierPolicy (info Allocator))
       (TypeWriteBarrierPolicy T)"

text \<open>
  \<open>AllocatorWriteBarrierPolicy<Allocator, T>::Policy\<close>, lines 53-64. The full
  specialisation \<open><RecyclerNonLeafAllocator, int>\<close> is chosen before the partial
  specialisation \<open><RecyclerNonLeafAllocator, T>\<close>, and that one before the primary
  template.
\<close>

fun AllocatorWriteBarrierPolicy ::
  "allocator_info \<Rightarrow> allocator \<Rightarrow> ctype \<Rightarrow> policy" where
  "AllocatorWriteBarrierPolicy info RecyclerNonLeafAllocator TInt = no_write_barrier_policy"
| "AllocatorWriteBarrierPolicy info RecyclerNonLeafAllocator T = write_barrier_policy"
| "AllocatorWriteBarrierPolicy info Allocator T =
     AllocatorWriteBarrierPolicy_primary info Allocator T"

text \<open>
  For closed examples the parameter \<open>info\<close> needs a value. The header's comment on
  allocator types (lines 33-35) gives one: the Recycler allocator type consists of the
  allocators \<open>Recycler\<close>, \<open>RecyclerNonLeafAllocator\<close> and \<open>RecyclerLeafAllocator\<close>.
  Every other allocator is its own allocator type.
\<close>

fun AllocatorInfo_AllocatorType :: allocator_info where
  "AllocatorInfo_AllocatorType Recycler = Recycler"
| "AllocatorInfo_AllocatorType RecyclerNonLeafAllocator = Recycler"
| "AllocatorInfo_AllocatorType RecyclerLeafAllocator = Recycler"
| "AllocatorInfo_AllocatorType (OtherAllocator name) = OtherAllocator name"

text \<open>\<open>_WriteBarrierPtrPolicy<T, Policy>::Ptr\<close>, lines 68-71.\<close>

fun WriteBarrierPtrPolicy :: "ctype \<Rightarrow> policy \<Rightarrow> ctype" where
  "WriteBarrierPtrPolicy T write_barrier_policy = TWriteBarrierPtr T"
| "WriteBarrierPtrPolicy T Policy = TNoWriteBarrierPtr T"

text \<open>
  \<open>WriteBarrierPtrTraits<T, Allocator>::Ptr\<close>, lines 75-78, with the default
  \<open>Policy\<close> argument: the policy of the allocator and the pointer type \<open>T*\<close>.
\<close>

definition WriteBarrierPtrTraits :: "allocator_info \<Rightarrow> ctype \<Rightarrow> allocator \<Rightarrow> ctype" where
  "WriteBarrierPtrTraits info T Allocator =
     WriteBarrierPtrPolicy T (AllocatorWriteBarrierPolicy info Allocator (TPointer T))"

text \<open>\<open>_ArrayItemTypeTraits<T, Policy>::Type\<close>, lines 86-95.\<close>

fun ArrayItemTypeTraits :: "ctype \<Rightarrow> policy \<Rightarrow> ctype" where
  "ArrayItemTypeTraits (TPointer T) write_barrier_policy = TWriteBarrierPtr T"
| "ArrayItemTypeTraits T Policy = T"

text \<open>\<open>WriteBarrierArrayItemTraits<T, Allocator>::Type\<close>, lines 96-99.\<close>

definition WriteBarrierArrayItemTraits :: "allocator_info \<Rightarrow> ctype \<Rightarrow> allocator \<Rightarrow> ctype" where
  "WriteBarrierArrayItemTraits info T Allocator =
     ArrayItemTypeTraits T (AllocatorWriteBarrierPolicy info Allocator T)"

section \<open>Memory and the recycler's write barrier hook\<close>

text \<open>
  Memory is byte addressed. A value of a C++ type is its object representation, the
  list of its \<open>sizeof\<close> bytes; a pointer value is a list of \<open>sizeof(T* )\<close> bytes.
  Addresses, sizes and counts are natural numbers; the products the header computes in
  \<open>size_t\<close> wrap around, see \<open>size_t_mul\<close> below.
\<close>

type_synonym addr = nat
type_synonym byte = "8 word"
type_synonym memory = "addr \<Rightarrow> byte"

definition read_bytes :: "memory \<Rightarrow> addr \<Rightarrow> nat \<Rightarrow> byte list" where
  "read_bytes m a n = map m [a..<a + n]"

definition write_bytes :: "memory \<Rightarrow> addr \<Rightarrow> byte list \<Rightarrow> memory" where
  "write_bytes m a bs = (\<lambda>x. if a \<le> x \<and> x < a + length bs then bs ! (x - a) else m x)"

text \<open>
  One call of the barrier hook: the address it was given, the byte count (\<open>None\<close>
  for the overload that takes the address alone), and the memory as it was when the
  hook ran.
\<close>

record hook_call =
  address :: addr
  byte_count :: "nat option"
  observed :: memory

text \<open>The state the header's functions act on: memory, and the hook's calls in order.\<close>

record machine =
  mem :: memory
  calls :: "hook_call list"

text \<open>
  Modelled from the spec: \<open>RecyclerWriteBarrierManager::WriteBarrier\<close> is declared
  in another header. The spec describes it as the collector's notification entry point
  \<open>notify(address, byteLength)\<close>, an infallible call that leaves the mutated slot
  alone, observed through an instrumented hook that counts the calls and snapshots the
  stored bits at call time. Both overloads the header calls, \<open>WriteBarrier(address)\<close>
  and \<open>WriteBarrier(address, bytes)\<close>, are this function.
\<close>

definition RecyclerWriteBarrierManager_WriteBarrier ::
  "addr \<Rightarrow> nat option \<Rightarrow> machine \<Rightarrow> machine" where
  "RecyclerWriteBarrierManager_WriteBarrier a bytes s =
     s\<lparr>calls := calls s @ [\<lparr>address = a, byte_count = bytes, observed = mem s\<rparr>]\<rparr>"

text \<open>
  What the build fixes: whether \<open>RECYCLER_WRITE_BARRIER\<close> is defined (the
  \<open>#ifdef\<close> of lines 110 and 272), and the size of a pointer, which is also the size
  of each pointer wrapper (its only member is the pointer).
\<close>

record build =
  RECYCLER_WRITE_BARRIER :: bool
  sizeof_ptr :: nat

text \<open>
  \<open>size_t\<close> is as wide as a pointer, and the product of two \<open>size_t\<close> values
  wraps around: \<open>sizeof(T) * count\<close> in the header is \<open>size_t_mul\<close> here.
\<close>

definition size_t_mul :: "build \<Rightarrow> nat \<Rightarrow> nat \<Rightarrow> nat" where
  "size_t_mul b x y = (x * y) mod 2 ^ (8 * sizeof_ptr b)"

text \<open>The C library's \<open>memset\<close> (with the fill value already a byte) and \<open>memmove\<close>.\<close>

definition memset :: "addr \<Rightarrow> byte \<Rightarrow> nat \<Rightarrow> machine \<Rightarrow> machine" where
  "memset Dst Val Size s = s\<lparr>mem := write_bytes (mem s) Dst (replicate Size Val)\<rparr>"

definition memmove :: "addr \<Rightarrow> addr \<Rightarrow> nat \<Rightarrow> machine \<Rightarrow> machine" where
  "memmove Dst Src Size s = s\<lparr>mem := write_bytes (mem s) Dst (read_bytes (mem s) Src Size)\<rparr>"

text \<open>
  The C library's \<open>memcpy\<close>: the copy \<open>memmove\<close> makes when the two ranges do not
  overlap, and undefined behaviour (\<open>None\<close>) when they do.
\<close>

definition memcpy :: "addr \<Rightarrow> addr \<Rightarrow> nat \<Rightarrow> machine \<Rightarrow> machine option" where
  "memcpy Dst Src Size s =
     (if Dst + Size \<le> Src \<or> Src + Size \<le> Dst then Some (memmove Dst Src Size s) else None)"

text \<open>
  Modelled from the spec: \<open>js_memcpy_s\<close> is defined in another file of the
  repository. By the spec, the copy takes the smaller of the two caller-supplied byte
  extents from \<open>src\<close> to \<open>dst\<close> and validates nothing else.
\<close>

definition js_memcpy_s :: "addr \<Rightarrow> nat \<Rightarrow> addr \<Rightarrow> nat \<Rightarrow> machine \<Rightarrow> machine" where
  "js_memcpy_s dst sizeInBytes src count s =
     s\<lparr>mem := write_bytes (mem s) dst (read_bytes (mem s) src (min sizeInBytes count))\<rparr>"

section \<open>Array write barrier and CopyArray (lines 101-150)\<close>

text \<open>
  \<open>_ArrayWriteBarrier<Policy>::WriteBarrier<T>(address, count)\<close>, lines 103-120. The
  specialisation for \<open>_write_barrier_policy\<close> exists only under
  \<open>RECYCLER_WRITE_BARRIER\<close>; without it the empty primary template is used for both
  policies. \<open>sizeof_T\<close> is \<open>sizeof(T)\<close>.
\<close>

definition ArrayWriteBarrier ::
  "build \<Rightarrow> policy \<Rightarrow> nat \<Rightarrow> addr \<Rightarrow> nat \<Rightarrow> machine \<Rightarrow> machine" where
  "ArrayWriteBarrier b Policy sizeof_T a count s =
     (if RECYCLER_WRITE_BARRIER b \<and> Policy = write_barrier_policy
      then RecyclerWriteBarrierManager_WriteBarrier a (Some (size_t_mul b sizeof_T count)) s
      else s)"

text \<open>\<open>WriteBarrier<T, Allocator, PolicyType>(address, count)\<close>, lines 125-130.\<close>

definition WriteBarrier ::
  "build \<Rightarrow> allocator_info \<Rightarrow> allocator \<Rightarrow> ctype \<Rightarrow> nat \<Rightarrow> addr \<Rightarrow> nat \<Rightarrow> machine \<Rightarrow> machine" where
  "WriteBarrier b info Allocator PolicyType sizeof_T a count s =
     ArrayWriteBarrier b (AllocatorWriteBarrierPolicy info Allocator PolicyType) sizeof_T a count s"

text \<open>\<open>CopyArray<Allocator, T, PolicyType>(T* dst, dstCount, const T* src, srcCount)\<close>, lines 135-140.\<close>

definition CopyArray ::
  "build \<Rightarrow> allocator_info \<Rightarrow> allocator \<Rightarrow> ctype \<Rightarrow> nat \<Rightarrow>
   addr \<Rightarrow> nat \<Rightarrow> addr \<Rightarrow> nat \<Rightarrow> machine \<Rightarrow> machine" where
  "CopyArray b info Allocator PolicyType sizeof_T dst dstCount src srcCount s =
     WriteBarrier b info Allocator PolicyType sizeof_T dst dstCount
       (js_memcpy_s dst (size_t_mul b sizeof_T dstCount) src (size_t_mul b sizeof_T srcCount) s)"

text \<open>
  The address a pointer value holds (little endian), for the two overloads of
  \<open>CopyArray\<close> that take the arrays through pointer wrappers and convert each wrapper
  to the pointer it stores.
\<close>

definition pointer_address :: "byte list \<Rightarrow> addr" where
  "pointer_address bs = foldr (\<lambda>x n. unat x + 256 * n) bs 0"

text \<open>\<open>CopyArray(NoWriteBarrierPtr<T>& dst, dstCount, const NoWriteBarrierPtr<T>& src, srcCount)\<close>, lines 141-145.\<close>

definition CopyArray_NoWriteBarrierPtr ::
  "build \<Rightarrow> allocator_info \<Rightarrow> allocator \<Rightarrow> ctype \<Rightarrow> nat \<Rightarrow>
   addr \<Rightarrow> nat \<Rightarrow> addr \<Rightarrow> nat \<Rightarrow> machine \<Rightarrow> machine" where
  "CopyArray_NoWriteBarrierPtr b info Allocator PolicyType sizeof_T dst dstCount src srcCount s =
     CopyArray b info Allocator PolicyType sizeof_T
       (pointer_address (read_bytes (mem s) dst (sizeof_ptr b))) dstCount
       (pointer_address (read_bytes (mem s) src (sizeof_ptr b))) srcCount s"

text \<open>\<open>CopyArray(WriteBarrierPtr<T>& dst, dstCount, const WriteBarrierPtr<T>& src, srcCount)\<close>, lines 146-150.\<close>

definition CopyArray_WriteBarrierPtr ::
  "build \<Rightarrow> allocator_info \<Rightarrow> allocator \<Rightarrow> ctype \<Rightarrow> nat \<Rightarrow>
   addr \<Rightarrow> nat \<Rightarrow> addr \<Rightarrow> nat \<Rightarrow> machine \<Rightarrow> machine" where
  "CopyArray_WriteBarrierPtr b info Allocator PolicyType sizeof_T dst dstCount src srcCount s =
     CopyArray b info Allocator PolicyType sizeof_T
       (pointer_address (read_bytes (mem s) dst (sizeof_ptr b))) dstCount
       (pointer_address (read_bytes (mem s) src (sizeof_ptr b))) srcCount s"

section \<open>The wrapper classes (lines 153-305)\<close>

text \<open>
  An object is named by its address \<open>this\<close>; each wrapper's only member is at that
  address. A default constructor leaves the member as it is.
\<close>

subsection \<open>NoWriteBarrierField (lines 153-176)\<close>

definition NoWriteBarrierField_init :: "addr \<Rightarrow> byte list \<Rightarrow> machine \<Rightarrow> machine" where
  "NoWriteBarrierField_init this v s = s\<lparr>mem := write_bytes (mem s) this v\<rparr>"

definition NoWriteBarrierField_assign :: "addr \<Rightarrow> byte list \<Rightarrow> machine \<Rightarrow> machine" where
  "NoWriteBarrierField_assign this v s = s\<lparr>mem := write_bytes (mem s) this v\<rparr>"

subsection \<open>NoWriteBarrierPtr (lines 178-200)\<close>

definition NoWriteBarrierPtr_init :: "addr \<Rightarrow> byte list \<Rightarrow> machine \<Rightarrow> machine" where
  "NoWriteBarrierPtr_init this v s = s\<lparr>mem := write_bytes (mem s) this v\<rparr>"

definition NoWriteBarrierPtr_get :: "build \<Rightarrow> addr \<Rightarrow> machine \<Rightarrow> byte list" where
  "NoWriteBarrierPtr_get b this s = read_bytes (mem s) this (sizeof_ptr b)"

definition NoWriteBarrierPtr_assign :: "addr \<Rightarrow> byte list \<Rightarrow> machine \<Rightarrow> machine" where
  "NoWriteBarrierPtr_assign this v s = s\<lparr>mem := write_bytes (mem s) this v\<rparr>"

subsection \<open>WriteBarrierPtr (lines 227-305)\<close>

text \<open>\<open>NoWriteBarrierSet(T* ptr)\<close>, lines 265-268.\<close>

definition NoWriteBarrierSet :: "addr \<Rightarrow> byte list \<Rightarrow> machine \<Rightarrow> machine" where
  "NoWriteBarrierSet this ptr s = s\<lparr>mem := write_bytes (mem s) this ptr\<rparr>"

text \<open>\<open>WriteBarrierSet(T* ptr)\<close>, lines 269-275.\<close>

definition WriteBarrierSet :: "build \<Rightarrow> addr \<Rightarrow> byte list \<Rightarrow> machine \<Rightarrow> machine" where
  "WriteBarrierSet b this ptr s =
     (let s' = NoWriteBarrierSet this ptr s in
      if RECYCLER_WRITE_BARRIER b
      then RecyclerWriteBarrierManager_WriteBarrier this None s'
      else s')"

text \<open>The constructor \<open>WriteBarrierPtr(T* ptr)\<close>, lines 232-236.\<close>

definition WriteBarrierPtr_init :: "addr \<Rightarrow> byte list \<Rightarrow> machine \<Rightarrow> machine" where
  "WriteBarrierPtr_init this ptr s = NoWriteBarrierSet this ptr s"

text \<open>The getters \<open>operator->\<close> and \<open>operator T* const &\<close>, lines 239-240.\<close>

definition WriteBarrierPtr_get :: "build \<Rightarrow> addr \<Rightarrow> machine \<Rightarrow> byte list" where
  "WriteBarrierPtr_get b this s = read_bytes (mem s) this (sizeof_ptr b)"

text \<open>\<open>operator=(T* ptr)\<close>, lines 260-264.\<close>

definition WriteBarrierPtr_assign :: "build \<Rightarrow> addr \<Rightarrow> byte list \<Rightarrow> machine \<Rightarrow> machine" where
  "WriteBarrierPtr_assign b this ptr s = WriteBarrierSet b this ptr s"

text \<open>\<open>operator=(WriteBarrierPtr const& other)\<close>, lines 277-281.\<close>

definition WriteBarrierPtr_assign_from :: "build \<Rightarrow> addr \<Rightarrow> addr \<Rightarrow> machine \<Rightarrow> machine" where
  "WriteBarrierPtr_assign_from b this other s =
     WriteBarrierSet b this (WriteBarrierPtr_get b other s) s"

text \<open>
  The static bulk operations, lines 283-302. Each calls \<open>WriteBarrier(dst, count)\<close>
  with the template's defaults: the element type and the policy type are
  \<open>WriteBarrierPtr<T>\<close>, the allocator is \<open>Recycler\<close>.
\<close>

definition WriteBarrierPtr_MoveArray ::
  "build \<Rightarrow> allocator_info \<Rightarrow> ctype \<Rightarrow> addr \<Rightarrow> addr \<Rightarrow> nat \<Rightarrow> machine \<Rightarrow> machine" where
  "WriteBarrierPtr_MoveArray b info T dst src count s =
     WriteBarrier b info Recycler (TWriteBarrierPtr T) (sizeof_ptr b) dst count
       (memmove dst src (size_t_mul b (sizeof_ptr b) count) s)"



text \<open>\<open>ClearArray(WriteBarrierPtr* dst, count)\<close>, lines 298-302.\<close>

definition WriteBarrierPtr_ClearArray :: "build \<Rightarrow> addr \<Rightarrow> nat \<Rightarrow> machine \<Rightarrow> machine" where
  "WriteBarrierPtr_ClearArray b dst count s = memset dst 0 (size_t_mul b (sizeof_ptr b) count) s"

subsection \<open>Construction and assignment by element type\<close>

text \<open>
  Constructing an object of type \<open>T\<close> from a value, and assigning a value to it: the
  wrapper's own constructor and \<open>operator=\<close> for the three wrappers, the built-in
  store for every other type.
\<close>

fun construct :: "ctype \<Rightarrow> addr \<Rightarrow> byte list \<Rightarrow> machine \<Rightarrow> machine" where
  "construct (TWriteBarrierPtr T) this v s = WriteBarrierPtr_init this v s"
| "construct (TNoWriteBarrierPtr T) this v s = NoWriteBarrierPtr_init this v s"
| "construct (TNoWriteBarrierField T) this v s = NoWriteBarrierField_init this v s"
| "construct T this v s = s\<lparr>mem := write_bytes (mem s) this v\<rparr>"

fun operator_assign :: "build \<Rightarrow> ctype \<Rightarrow> addr \<Rightarrow> byte list \<Rightarrow> machine \<Rightarrow> machine" where
  "operator_assign b (TWriteBarrierPtr T) this v s = WriteBarrierPtr_assign b this v s"
| "operator_assign b (TNoWriteBarrierPtr T) this v s = NoWriteBarrierPtr_assign this v s"
| "operator_assign b (TNoWriteBarrierField T) this v s = NoWriteBarrierField_assign this v s"
| "operator_assign b T this v s = s\<lparr>mem := write_bytes (mem s) this v\<rparr>"

section \<open>Addresses of the stored member, and what the compiler rejects\<close>

text \<open>
  Whether the object a member function is called on is \<open>const\<close>, and the pointer or
  reference the call returns: to a \<open>const\<close> member (\<open>T* const *\<close>, \<open>T const*\<close>,
  \<open>T const&\<close>) or to a mutable one (\<open>T**\<close>, \<open>T*\<close>, \<open>T&\<close>).
\<close>

datatype object = ConstObject | MutableObject

datatype slot_pointer = PointerToConst addr | PointerToMutable addr

datatype compile_error = CompileAssert_false | assignment_to_const

text \<open>
  \<open>NoWriteBarrierField\<close>: \<open>operator&\<close> (lines 164-165) and the conversions to
  \<open>T const&\<close> and \<open>T&\<close> (lines 161-162).
\<close>

fun NoWriteBarrierField_operator_address :: "object \<Rightarrow> addr \<Rightarrow> slot_pointer" where
  "NoWriteBarrierField_operator_address ConstObject this = PointerToConst this"
| "NoWriteBarrierField_operator_address MutableObject this = PointerToMutable this"

fun NoWriteBarrierField_reference :: "object \<Rightarrow> addr \<Rightarrow> slot_pointer" where
  "NoWriteBarrierField_reference ConstObject this = PointerToConst this"
| "NoWriteBarrierField_reference MutableObject this = PointerToMutable this"

text \<open>\<open>NoWriteBarrierPtr::operator&\<close>, lines 189-190.\<close>

fun NoWriteBarrierPtr_operator_address :: "object \<Rightarrow> addr \<Rightarrow> slot_pointer" where
  "NoWriteBarrierPtr_operator_address ConstObject this = PointerToConst this"
| "NoWriteBarrierPtr_operator_address MutableObject this = PointerToMutable this"

text \<open>\<open>WriteBarrierPtr::AddressOf\<close>, lines 242-243.\<close>

fun WriteBarrierPtr_AddressOf :: "object \<Rightarrow> addr \<Rightarrow> slot_pointer" where
  "WriteBarrierPtr_AddressOf ConstObject this = PointerToConst this"
| "WriteBarrierPtr_AddressOf MutableObject this = PointerToMutable this"

text \<open>
  \<open>WriteBarrierPtr::operator&\<close>, lines 245-257. Only the \<open>const\<close> overload is
  declared (the mutable one is commented out), so it is the one called on a mutable
  object too.
\<close>

fun WriteBarrierPtr_operator_address :: "object \<Rightarrow> addr \<Rightarrow> slot_pointer" where
  "WriteBarrierPtr_operator_address obj this = PointerToConst this"

text \<open>
  A store through such a pointer or reference, \<open>*p = v\<close>: ill-formed through a
  pointer to \<open>const\<close>, a plain store otherwise.
\<close>

fun store_through :: "slot_pointer \<Rightarrow> byte list \<Rightarrow> machine \<Rightarrow> compile_error + machine" where
  "store_through (PointerToConst a) v s = Inl assignment_to_const"
| "store_through (PointerToMutable a) v s = Inr (s\<lparr>mem := write_bytes (mem s) a v\<rparr>)"

text \<open>
  The overloads of lines 329-347: templates of \<open>memmove\<close>, \<open>js_memcpy_s\<close> and
  \<open>memset\<close> with a first parameter of type \<open>WriteBarrierPtr<T>*\<close> and the body
  \<open>CompileAssert(false)\<close>. A call selects such a template when two things hold. Its
  destination argument has the static type \<open>WriteBarrierPtr<T>*\<close>: then the template
  is the better match, and for any other type (also for a destination cast to
  \<open>void*\<close>, as in the bulk operations of \<open>WriteBarrierPtr\<close>) it is no match at all.
  And name lookup at the call finds the template. The templates are declared at the end
  of the header, in the global namespace: a call written after them finds them, a call
  in a template written before them (the one in \<open>CopyArray\<close>, line 138) finds them
  only by argument-dependent lookup, and for \<open>WriteBarrierPtr<int>\<close> elements that
  lookup does not reach the global namespace. What name lookup finds is an argument of
  the model.
\<close>

datatype lookup = overload_found | overload_not_found

fun is_WriteBarrierPtr_pointer :: "ctype \<Rightarrow> bool" where
  "is_WriteBarrierPtr_pointer (TPointer (TWriteBarrierPtr T)) = True"
| "is_WriteBarrierPtr_pointer DstType = False"

fun memmove_call ::
  "lookup \<Rightarrow> ctype \<Rightarrow> addr \<Rightarrow> addr \<Rightarrow> nat \<Rightarrow> machine \<Rightarrow> compile_error + machine" where
  "memmove_call overload_found (TPointer (TWriteBarrierPtr T)) Dst Src Size s =
     Inl CompileAssert_false"
| "memmove_call found DstType Dst Src Size s = Inr (memmove Dst Src Size s)"

fun js_memcpy_s_call ::
  "lookup \<Rightarrow> ctype \<Rightarrow> addr \<Rightarrow> nat \<Rightarrow> addr \<Rightarrow> nat \<Rightarrow> machine \<Rightarrow> compile_error + machine" where
  "js_memcpy_s_call overload_found (TPointer (TWriteBarrierPtr T)) dst sizeInBytes src count s =
     Inl CompileAssert_false"
| "js_memcpy_s_call found DstType dst sizeInBytes src count s =
     Inr (js_memcpy_s dst sizeInBytes src count s)"

fun memset_call ::
  "lookup \<Rightarrow> ctype \<Rightarrow> addr \<Rightarrow> byte \<Rightarrow> nat \<Rightarrow> machine \<Rightarrow> compile_error + machine" where
  "memset_call overload_found (TPointer (TWriteBarrierPtr T)) Dst Val Size s =
     Inl CompileAssert_false"
| "memset_call found DstType Dst Val Size s = Inr (memset Dst Val Size s)"

text \<open>
  The header declares no template of \<open>memcpy\<close>: a call of \<open>memcpy\<close> is a call of the
  C library's function, whatever the destination's static type is.
\<close>

definition memcpy_call ::
  "ctype \<Rightarrow> addr \<Rightarrow> addr \<Rightarrow> nat \<Rightarrow> machine \<Rightarrow> compile_error + machine option" where
  "memcpy_call DstType Dst Src Size s = Inr (memcpy Dst Src Size s)"

section \<open>min and max over NoWriteBarrierField (lines 309-326)\<close>

text \<open>
  The six overloads take their operands by \<open>const\<close> reference and compare the
  values, a wrapped operand through its conversion to \<open>T const&\<close>. Here a
  \<open>NoWriteBarrierField<T>\<close> operand is the wrapper around its value.
\<close>

datatype 'a NoWriteBarrierField = NoWriteBarrierField 'a

fun field_value :: "'a NoWriteBarrierField \<Rightarrow> 'a" where
  "field_value (NoWriteBarrierField v) = v"

definition min_T_Field :: "'a::ord \<Rightarrow> 'a NoWriteBarrierField \<Rightarrow> 'a" where
  "min_T_Field a b = (if a < field_value b then a else field_value b)"

definition min_Field_T :: "'a::ord NoWriteBarrierField \<Rightarrow> 'a \<Rightarrow> 'a" where
  "min_Field_T a b = (if field_value a < b then field_value a else b)"

definition min_Field_Field :: "'a::ord NoWriteBarrierField \<Rightarrow> 'a NoWriteBarrierField \<Rightarrow> 'a" where
  "min_Field_Field a b = (if field_value a < field_value b then field_value a else field_value b)"

definition max_Field_T :: "'a::ord NoWriteBarrierField \<Rightarrow> 'a \<Rightarrow> 'a" where
  "max_Field_T a b = (if field_value a > b then field_value a else b)"

definition max_T_Field :: "'a::ord \<Rightarrow> 'a NoWriteBarrierField \<Rightarrow> 'a" where
  "max_T_Field a b = (if a > field_value b then a else field_value b)"

definition max_Field_Field :: "'a::ord NoWriteBarrierField \<Rightarrow> 'a NoWriteBarrierField \<Rightarrow> 'a" where
  "max_Field_Field a b = (if field_value a > field_value b then field_value a else field_value b)"

section \<open>Element by element assignment\<close>

text \<open>
  What the bulk operations are compared with: the elements of an array, each
  \<open>sizeof_T\<close> bytes, and the assignment of a list of values to consecutive elements,
  one \<open>assign\<close> after the other from the first element on.
\<close>

definition elements :: "memory \<Rightarrow> addr \<Rightarrow> nat \<Rightarrow> nat \<Rightarrow> byte list list" where
  "elements m src sizeof_T count = map (\<lambda>i. read_bytes m (src + i * sizeof_T) sizeof_T) [0..<count]"

fun assign_each ::
  "(addr \<Rightarrow> byte list \<Rightarrow> machine \<Rightarrow> machine) \<Rightarrow> nat \<Rightarrow> addr \<Rightarrow> byte list list \<Rightarrow> machine \<Rightarrow> machine" where
  "assign_each assign sizeof_T dst [] s = s"
| "assign_each assign sizeof_T dst (v # vs) s =
     assign_each assign sizeof_T (dst + sizeof_T) vs (assign dst v s)"

text \<open>
  The loop \<open>for (i = 0; i < count; i++) dst[i] = src[i];\<close>, which reads each source
  element when its turn comes.
\<close>

fun assign_loop ::
  "(addr \<Rightarrow> byte list \<Rightarrow> machine \<Rightarrow> machine) \<Rightarrow> nat \<Rightarrow> addr \<Rightarrow> addr \<Rightarrow> nat \<Rightarrow> machine \<Rightarrow> machine" where
  "assign_loop assign sizeof_T dst src 0 s = s"
| "assign_loop assign sizeof_T dst src (Suc n) s =
     assign_loop assign sizeof_T (dst + sizeof_T) (src + sizeof_T) n
       (assign dst (read_bytes (mem s) src sizeof_T) s)"


section \<open>Two builds and a machine, for closed examples\<close>

definition build_on :: build where
  "build_on = \<lparr>RECYCLER_WRITE_BARRIER = True, sizeof_ptr = 4\<rparr>"

definition build_off :: build where
  "build_off = \<lparr>RECYCLER_WRITE_BARRIER = False, sizeof_ptr = 4\<rparr>"

definition zero_machine :: machine where
  "zero_machine = \<lparr>mem = (\<lambda>a. 0), calls = []\<rparr>"

text \<open>A machine with the two pointer values 1, 2, 3, 4 and 5, 6, 7, 8 at the addresses 32 and 36.\<close>

definition two_pointers :: machine where
  "two_pointers = \<lparr>mem = write_bytes (\<lambda>a. 0) 32 [1, 2, 3, 4, 5, 6, 7, 8], calls = []\<rparr>"

section \<open>Policy resolution\<close>

lemma TypeWriteBarrierPolicy_iff:
  "TypeWriteBarrierPolicy T = write_barrier_policy \<longleftrightarrow>
     is_pointer T \<or> is_WriteBarrierPtr T \<or> T = TPolicy write_barrier_policy"
  by (induction T rule: TypeWriteBarrierPolicy.induct) simp_all

lemma AllocatorTypeWriteBarrierPolicy_iff:
  "AllocatorTypeWriteBarrierPolicy A = write_barrier_policy \<longleftrightarrow> A = Recycler"
  by (cases A) simp_all

lemma AndWriteBarrierPolicy_iff:
  "AndWriteBarrierPolicy P Q = write_barrier_policy \<longleftrightarrow>
     P = write_barrier_policy \<and> Q = write_barrier_policy"
  by (cases P; cases Q) simp_all

lemma AllocatorWriteBarrierPolicy_primary_iff:
  "AllocatorWriteBarrierPolicy_primary info A T = write_barrier_policy \<longleftrightarrow>
     info A = Recycler \<and>
     (is_pointer T \<or> is_WriteBarrierPtr T \<or> T = TPolicy write_barrier_policy)"
  by (simp add: AllocatorWriteBarrierPolicy_primary_def AndWriteBarrierPolicy_iff
      AllocatorTypeWriteBarrierPolicy_iff TypeWriteBarrierPolicy_iff)

lemma AllocatorWriteBarrierPolicy_no_override:
  "A \<noteq> RecyclerNonLeafAllocator \<Longrightarrow>
   AllocatorWriteBarrierPolicy info A T = AllocatorWriteBarrierPolicy_primary info A T"
  by (cases A) simp_all

lemma AllocatorWriteBarrierPolicy_NonLeaf:
  "AllocatorWriteBarrierPolicy info RecyclerNonLeafAllocator T =
     (if T = TInt then no_write_barrier_policy else write_barrier_policy)"
  by (cases T) simp_all

lemma policy_not_write_barrier:
  "P \<noteq> write_barrier_policy \<longleftrightarrow> P = no_write_barrier_policy"
  by (cases P) simp_all

text \<open>
  C2, as the header has it. For every allocator but \<open>RecyclerNonLeafAllocator\<close> (the
  one allocator with specialisations of its own) and every type \<open>T\<close>, the policy is
  \<open>_write_barrier_policy\<close> if and only if the allocator's allocator type is
  \<open>Recycler\<close> and \<open>T\<close> is a pointer, a \<open>WriteBarrierPtr\<close> or the tag
  \<open>_write_barrier_policy\<close> itself; in every other case it is
  \<open>_no_write_barrier_policy\<close>. A type the header does not know has the policy
  \<open>_no_write_barrier_policy\<close>, and so has an allocator type it does not know.
\<close>

theorem C2_policy_resolution:
  "A \<noteq> RecyclerNonLeafAllocator \<Longrightarrow>
   (AllocatorWriteBarrierPolicy info A T = write_barrier_policy \<longleftrightarrow>
      info A = Recycler \<and>
      (is_pointer T \<or> is_WriteBarrierPtr T \<or> T = TPolicy write_barrier_policy)) \<and>
   (AllocatorWriteBarrierPolicy info A T = no_write_barrier_policy \<longleftrightarrow>
      \<not> (info A = Recycler \<and>
         (is_pointer T \<or> is_WriteBarrierPtr T \<or> T = TPolicy write_barrier_policy))) \<and>
   TypeWriteBarrierPolicy (TNamed type_name) = no_write_barrier_policy \<and>
   AllocatorTypeWriteBarrierPolicy (OtherAllocator allocator_name) = no_write_barrier_policy \<and>
   AllocatorWriteBarrierPolicy info A (TNamed type_name) = no_write_barrier_policy \<and>
   (info A = OtherAllocator allocator_name \<longrightarrow>
      AllocatorWriteBarrierPolicy info A T = no_write_barrier_policy)"
proof -
  assume A: "A \<noteq> RecyclerNonLeafAllocator"
  have primary: "\<And>i U. AllocatorWriteBarrierPolicy i A U = AllocatorWriteBarrierPolicy_primary i A U"
    using A by (rule AllocatorWriteBarrierPolicy_no_override)
  have yes: "AllocatorWriteBarrierPolicy info A T = write_barrier_policy \<longleftrightarrow>
      info A = Recycler \<and>
      (is_pointer T \<or> is_WriteBarrierPtr T \<or> T = TPolicy write_barrier_policy)"
    by (simp only: primary AllocatorWriteBarrierPolicy_primary_iff)
  have no: "AllocatorWriteBarrierPolicy info A T = no_write_barrier_policy \<longleftrightarrow>
      \<not> (info A = Recycler \<and>
         (is_pointer T \<or> is_WriteBarrierPtr T \<or> T = TPolicy write_barrier_policy))"
    using yes policy_not_write_barrier [of "AllocatorWriteBarrierPolicy info A T"] by blast
  have named: "AllocatorWriteBarrierPolicy info A (TNamed type_name) = no_write_barrier_policy"
    using policy_not_write_barrier [of "AllocatorWriteBarrierPolicy info A (TNamed type_name)"]
    by (simp add: primary AllocatorWriteBarrierPolicy_primary_iff)
  have other: "info A = OtherAllocator allocator_name \<longrightarrow>
      AllocatorWriteBarrierPolicy info A T = no_write_barrier_policy"
    using no by simp
  show ?thesis
    using yes no named other by simp
qed

theorem C2_policy_resolution_witness:
  "(AllocatorWriteBarrierPolicy AllocatorInfo_AllocatorType Recycler (TPointer TInt) =
      write_barrier_policy) \<and>
   AllocatorWriteBarrierPolicy AllocatorInfo_AllocatorType Recycler (TNamed ''double'') =
      no_write_barrier_policy \<and>
   AllocatorWriteBarrierPolicy AllocatorInfo_AllocatorType (OtherAllocator ''ArenaAllocator'')
      (TPointer TInt) = no_write_barrier_policy"
  using C2_policy_resolution [of Recycler AllocatorInfo_AllocatorType "TPointer TInt" "''double''"
      "''ArenaAllocator''"]
    C2_policy_resolution [of "OtherAllocator ''ArenaAllocator''" AllocatorInfo_AllocatorType
      "TPointer TInt" "''double''" "''ArenaAllocator''"]
  by simp

theorem C2_tag_counterexample:
  "AllocatorWriteBarrierPolicy AllocatorInfo_AllocatorType Recycler (TPolicy write_barrier_policy) =
     write_barrier_policy \<and>
   \<not> is_pointer (TPolicy write_barrier_policy) \<and>
   \<not> is_WriteBarrierPtr (TPolicy write_barrier_policy)"
  by (simp add: AllocatorWriteBarrierPolicy_primary_def)

text \<open>
  C4, as the header has it. The specialisations of \<open>AllocatorWriteBarrierPolicy\<close> are
  chosen before its primary template, and all of them are for
  \<open>RecyclerNonLeafAllocator\<close>: the pinned pair with \<open>int\<close> has the policy
  \<open>_no_write_barrier_policy\<close>, and every other type under that allocator has the policy
  \<open>_write_barrier_policy\<close>, whatever the primary template would give. No
  specialisation names a leaf allocator: every other allocator goes through the primary
  template, so that one whose allocator type is \<open>Recycler\<close> has the policy
  \<open>_write_barrier_policy\<close> for a pointer.
\<close>

theorem C4_override_precedence:
  "AllocatorWriteBarrierPolicy info RecyclerNonLeafAllocator TInt = no_write_barrier_policy \<and>
   (T \<noteq> TInt \<longrightarrow>
      AllocatorWriteBarrierPolicy info RecyclerNonLeafAllocator T = write_barrier_policy) \<and>
   (A \<noteq> RecyclerNonLeafAllocator \<longrightarrow>
      AllocatorWriteBarrierPolicy info A T = AllocatorWriteBarrierPolicy_primary info A T) \<and>
   (A \<noteq> RecyclerNonLeafAllocator \<and> info A = Recycler \<longrightarrow>
      AllocatorWriteBarrierPolicy info A (TPointer X) = write_barrier_policy)"
proof -
  have pinned: "AllocatorWriteBarrierPolicy info RecyclerNonLeafAllocator TInt =
      no_write_barrier_policy"
    by simp
  have others: "T \<noteq> TInt \<longrightarrow>
      AllocatorWriteBarrierPolicy info RecyclerNonLeafAllocator T = write_barrier_policy"
    by (simp add: AllocatorWriteBarrierPolicy_NonLeaf)
  have primary: "A \<noteq> RecyclerNonLeafAllocator \<longrightarrow>
      AllocatorWriteBarrierPolicy info A T = AllocatorWriteBarrierPolicy_primary info A T"
    by (simp add: AllocatorWriteBarrierPolicy_no_override)
  have pointer: "A \<noteq> RecyclerNonLeafAllocator \<and> info A = Recycler \<longrightarrow>
      AllocatorWriteBarrierPolicy info A (TPointer X) = write_barrier_policy"
    by (simp add: AllocatorWriteBarrierPolicy_no_override AllocatorWriteBarrierPolicy_primary_iff)
  show ?thesis
    using pinned others primary pointer by blast
qed

theorem C4_override_precedence_witness:
  "AllocatorWriteBarrierPolicy AllocatorInfo_AllocatorType RecyclerNonLeafAllocator TInt =
     no_write_barrier_policy \<and>
   AllocatorWriteBarrierPolicy AllocatorInfo_AllocatorType RecyclerNonLeafAllocator
     (TNamed ''char'') = write_barrier_policy \<and>
   AllocatorWriteBarrierPolicy_primary AllocatorInfo_AllocatorType RecyclerNonLeafAllocator
     (TNamed ''char'') = no_write_barrier_policy \<and>
   AllocatorWriteBarrierPolicy AllocatorInfo_AllocatorType RecyclerLeafAllocator (TNamed ''char'') =
     AllocatorWriteBarrierPolicy_primary AllocatorInfo_AllocatorType RecyclerLeafAllocator
       (TNamed ''char'') \<and>
   AllocatorWriteBarrierPolicy AllocatorInfo_AllocatorType RecyclerLeafAllocator (TPointer TInt) =
     write_barrier_policy"
  using C4_override_precedence [of AllocatorInfo_AllocatorType "TNamed ''char''"
      RecyclerLeafAllocator TInt]
  by (simp add: AllocatorWriteBarrierPolicy_primary_def)

theorem C4_leaf_counterexample:
  "AllocatorInfo_AllocatorType RecyclerLeafAllocator = Recycler \<and>
   AllocatorWriteBarrierPolicy AllocatorInfo_AllocatorType RecyclerLeafAllocator (TPointer TInt) \<noteq>
     no_write_barrier_policy"
  by (simp add: AllocatorWriteBarrierPolicy_primary_def)

section \<open>Reading and writing memory\<close>

lemma length_read_bytes: "length (read_bytes m a n) = n"
  by (simp add: read_bytes_def)

lemma read_bytes_write_bytes_same:
  "length bs = n \<Longrightarrow> read_bytes (write_bytes m a bs) a n = bs"
  by (rule nth_equalityI) (simp_all add: read_bytes_def write_bytes_def)





lemma read_bytes_inside_fill:
  "dst \<le> a \<Longrightarrow> a + n \<le> dst + k \<Longrightarrow>
   read_bytes (write_bytes m dst (replicate k v)) a n = replicate n v"
  by (rule nth_equalityI) (simp_all add: read_bytes_def write_bytes_def)

section \<open>The setters of WriteBarrierPtr\<close>

lemma mem_NoWriteBarrierSet: "mem (NoWriteBarrierSet this p s) = write_bytes (mem s) this p"
  by (simp add: NoWriteBarrierSet_def)

lemma calls_NoWriteBarrierSet: "calls (NoWriteBarrierSet this p s) = calls s"
  by (simp add: NoWriteBarrierSet_def)

lemma mem_WriteBarrierSet: "mem (WriteBarrierSet b this p s) = write_bytes (mem s) this p"
  by (simp add: WriteBarrierSet_def NoWriteBarrierSet_def
      RecyclerWriteBarrierManager_WriteBarrier_def Let_def)

lemma calls_WriteBarrierSet:
  "calls (WriteBarrierSet b this p s) =
     calls s @ (if RECYCLER_WRITE_BARRIER b
                then [\<lparr>address = this, byte_count = None,
                       observed = write_bytes (mem s) this p\<rparr>]
                else [])"
  by (simp add: WriteBarrierSet_def NoWriteBarrierSet_def
      RecyclerWriteBarrierManager_WriteBarrier_def Let_def)

lemma WriteBarrierPtr_get_after_set:
  "length p = sizeof_ptr b \<Longrightarrow> WriteBarrierPtr_get b this (WriteBarrierSet b this p s) = p"
  by (simp add: WriteBarrierPtr_get_def mem_WriteBarrierSet read_bytes_write_bytes_same)

lemma length_WriteBarrierPtr_get: "length (WriteBarrierPtr_get b this s) = sizeof_ptr b"
  by (simp add: WriteBarrierPtr_get_def length_read_bytes)

lemma WriteBarrierPtrTraits_write_barrier:
  "AllocatorWriteBarrierPolicy info A (TPointer T) = write_barrier_policy \<Longrightarrow>
   WriteBarrierPtrTraits info T A = TWriteBarrierPtr T"
  by (simp add: WriteBarrierPtrTraits_def)

lemma WriteBarrierPtrTraits_no_write_barrier:
  "AllocatorWriteBarrierPolicy info A (TPointer T) = no_write_barrier_policy \<Longrightarrow>
   WriteBarrierPtrTraits info T A = TNoWriteBarrierPtr T"
  by (simp add: WriteBarrierPtrTraits_def)

lemma WriteBarrierPtrTraits_cases:
  "WriteBarrierPtrTraits info T A = TWriteBarrierPtr T \<or>
   WriteBarrierPtrTraits info T A = TNoWriteBarrierPtr T"
  by (cases "AllocatorWriteBarrierPolicy info A (TPointer T)")
    (simp_all add: WriteBarrierPtrTraits_def)

text \<open>
  C1, as the header has it. Let \<open>p\<close> be a pointer value and
  \<open>WriteBarrierPtrTraits<T, Allocator>::Ptr\<close> the pointer wrapper of an allocator.
  When the policy of the allocator and \<open>T*\<close> is \<open>_write_barrier_policy\<close>, the wrapper
  is \<open>WriteBarrierPtr<T>\<close>. In a build with \<open>RECYCLER_WRITE_BARRIER\<close> its assignment
  of \<open>p\<close> stores \<open>p\<close> and then calls the hook once, on the wrapper's own address,
  and the hook sees \<open>p\<close> stored there; the assignment from another
  \<open>WriteBarrierPtr\<close> does the same with the pointer that one holds. When the policy
  is \<open>_no_write_barrier_policy\<close>, the wrapper is \<open>NoWriteBarrierPtr<T>\<close>; its
  assignment stores \<open>p\<close> and calls no hook.
\<close>

theorem C1_guarded_assignment:
  assumes len: "length p = sizeof_ptr b"
  shows
    "(RECYCLER_WRITE_BARRIER b \<and>
      AllocatorWriteBarrierPolicy info A (TPointer T) = write_barrier_policy \<longrightarrow>
        WriteBarrierPtrTraits info T A = TWriteBarrierPtr T \<and>
        WriteBarrierPtr_get b this
          (operator_assign b (WriteBarrierPtrTraits info T A) this p s) = p \<and>
        calls (operator_assign b (WriteBarrierPtrTraits info T A) this p s) =
          calls s @ [\<lparr>address = this, byte_count = None,
                      observed = mem (operator_assign b (WriteBarrierPtrTraits info T A)
                        this p s)\<rparr>] \<and>
        read_bytes
          (observed (last (calls
             (operator_assign b (WriteBarrierPtrTraits info T A) this p s))))
          this (sizeof_ptr b) = p) \<and>
     (RECYCLER_WRITE_BARRIER b \<longrightarrow>
        WriteBarrierPtr_get b this (WriteBarrierPtr_assign_from b this other s) =
          WriteBarrierPtr_get b other s \<and>
        calls (WriteBarrierPtr_assign_from b this other s) =
          calls s @ [\<lparr>address = this, byte_count = None,
                      observed = mem (WriteBarrierPtr_assign_from b this other s)\<rparr>]) \<and>
     (AllocatorWriteBarrierPolicy info A (TPointer T) = no_write_barrier_policy \<longrightarrow>
        WriteBarrierPtrTraits info T A = TNoWriteBarrierPtr T \<and>
        NoWriteBarrierPtr_get b this
          (operator_assign b (WriteBarrierPtrTraits info T A) this p s) = p \<and>
        calls (operator_assign b (WriteBarrierPtrTraits info T A) this p s) = calls s)"
proof -
  let ?s1 = "operator_assign b (TWriteBarrierPtr T) this p s"
  let ?s2 = "WriteBarrierPtr_assign_from b this other s"
  let ?s3 = "operator_assign b (TNoWriteBarrierPtr T) this p s"
  have s1: "?s1 = WriteBarrierSet b this p s"
    by (simp add: WriteBarrierPtr_assign_def)
  have get1: "WriteBarrierPtr_get b this ?s1 = p"
    using len unfolding s1 by (simp add: WriteBarrierPtr_get_after_set)
  have calls1: "RECYCLER_WRITE_BARRIER b \<longrightarrow> calls ?s1 =
      calls s @ [\<lparr>address = this, byte_count = None, observed = mem ?s1\<rparr>]"
    unfolding s1 by (simp add: calls_WriteBarrierSet mem_WriteBarrierSet)
  have seen1: "RECYCLER_WRITE_BARRIER b \<longrightarrow>
      read_bytes (observed (last (calls ?s1))) this (sizeof_ptr b) = p"
    using len unfolding s1
    by (simp add: calls_WriteBarrierSet read_bytes_write_bytes_same)
  have s2: "?s2 = WriteBarrierSet b this (WriteBarrierPtr_get b other s) s"
    by (simp add: WriteBarrierPtr_assign_from_def)
  have get2: "WriteBarrierPtr_get b this ?s2 = WriteBarrierPtr_get b other s"
    unfolding s2 by (simp add: WriteBarrierPtr_get_after_set length_WriteBarrierPtr_get)
  have calls2: "RECYCLER_WRITE_BARRIER b \<longrightarrow> calls ?s2 =
      calls s @ [\<lparr>address = this, byte_count = None, observed = mem ?s2\<rparr>]"
    unfolding s2 by (simp add: calls_WriteBarrierSet mem_WriteBarrierSet)
  have get3: "NoWriteBarrierPtr_get b this ?s3 = p"
    using len
    by (simp add: NoWriteBarrierPtr_assign_def NoWriteBarrierPtr_get_def
        read_bytes_write_bytes_same)
  have calls3: "calls ?s3 = calls s"
    by (simp add: NoWriteBarrierPtr_assign_def)
  have required: "RECYCLER_WRITE_BARRIER b \<and>
      AllocatorWriteBarrierPolicy info A (TPointer T) = write_barrier_policy \<longrightarrow>
        WriteBarrierPtrTraits info T A = TWriteBarrierPtr T \<and>
        WriteBarrierPtr_get b this
          (operator_assign b (WriteBarrierPtrTraits info T A) this p s) = p \<and>
        calls (operator_assign b (WriteBarrierPtrTraits info T A) this p s) =
          calls s @ [\<lparr>address = this, byte_count = None,
                      observed = mem (operator_assign b (WriteBarrierPtrTraits info T A)
                        this p s)\<rparr>] \<and>
        read_bytes
          (observed (last (calls
             (operator_assign b (WriteBarrierPtrTraits info T A) this p s))))
          this (sizeof_ptr b) = p"
  proof (intro impI)
    assume a: "RECYCLER_WRITE_BARRIER b \<and>
      AllocatorWriteBarrierPolicy info A (TPointer T) = write_barrier_policy"
    then have tr: "WriteBarrierPtrTraits info T A = TWriteBarrierPtr T"
      by (simp add: WriteBarrierPtrTraits_write_barrier)
    show "WriteBarrierPtrTraits info T A = TWriteBarrierPtr T \<and>
        WriteBarrierPtr_get b this
          (operator_assign b (WriteBarrierPtrTraits info T A) this p s) = p \<and>
        calls (operator_assign b (WriteBarrierPtrTraits info T A) this p s) =
          calls s @ [\<lparr>address = this, byte_count = None,
                      observed = mem (operator_assign b (WriteBarrierPtrTraits info T A)
                        this p s)\<rparr>] \<and>
        read_bytes
          (observed (last (calls
             (operator_assign b (WriteBarrierPtrTraits info T A) this p s))))
          this (sizeof_ptr b) = p"
      unfolding tr using a get1 calls1 seen1 by blast
  qed
  have elided: "AllocatorWriteBarrierPolicy info A (TPointer T) = no_write_barrier_policy \<longrightarrow>
        WriteBarrierPtrTraits info T A = TNoWriteBarrierPtr T \<and>
        NoWriteBarrierPtr_get b this
          (operator_assign b (WriteBarrierPtrTraits info T A) this p s) = p \<and>
        calls (operator_assign b (WriteBarrierPtrTraits info T A) this p s) = calls s"
  proof (intro impI)
    assume "AllocatorWriteBarrierPolicy info A (TPointer T) = no_write_barrier_policy"
    then have tr: "WriteBarrierPtrTraits info T A = TNoWriteBarrierPtr T"
      by (simp add: WriteBarrierPtrTraits_no_write_barrier)
    show "WriteBarrierPtrTraits info T A = TNoWriteBarrierPtr T \<and>
        NoWriteBarrierPtr_get b this
          (operator_assign b (WriteBarrierPtrTraits info T A) this p s) = p \<and>
        calls (operator_assign b (WriteBarrierPtrTraits info T A) this p s) = calls s"
      unfolding tr using get3 calls3 by blast
  qed
  show ?thesis
    using required get2 calls2 elided by blast
qed

theorem C1_guarded_assignment_witness:
  "WriteBarrierPtrTraits AllocatorInfo_AllocatorType TInt Recycler = TWriteBarrierPtr TInt \<and>
   WriteBarrierPtr_get build_on 16
     (operator_assign build_on (WriteBarrierPtrTraits AllocatorInfo_AllocatorType TInt Recycler)
        16 [1, 2, 3, 4] zero_machine) = [1, 2, 3, 4] \<and>
   length (calls
     (operator_assign build_on (WriteBarrierPtrTraits AllocatorInfo_AllocatorType TInt Recycler)
        16 [1, 2, 3, 4] zero_machine)) = 1 \<and>
   WriteBarrierPtrTraits AllocatorInfo_AllocatorType TInt (OtherAllocator ''ArenaAllocator'') =
     TNoWriteBarrierPtr TInt \<and>
   NoWriteBarrierPtr_get build_on 16
     (operator_assign build_on
        (WriteBarrierPtrTraits AllocatorInfo_AllocatorType TInt (OtherAllocator ''ArenaAllocator''))
        16 [1, 2, 3, 4] zero_machine) = [1, 2, 3, 4] \<and>
   calls
     (operator_assign build_on
        (WriteBarrierPtrTraits AllocatorInfo_AllocatorType TInt (OtherAllocator ''ArenaAllocator''))
        16 [1, 2, 3, 4] zero_machine) = []"
proof -
  have len: "length [1, 2, 3, 4 :: byte] = sizeof_ptr build_on"
    by (simp add: build_on_def)
  have on: "RECYCLER_WRITE_BARRIER build_on"
    by (simp add: build_on_def)
  have required:
    "AllocatorWriteBarrierPolicy AllocatorInfo_AllocatorType Recycler (TPointer TInt) =
       write_barrier_policy"
    by (simp add: AllocatorWriteBarrierPolicy_primary_def)
  have elided:
    "AllocatorWriteBarrierPolicy AllocatorInfo_AllocatorType (OtherAllocator ''ArenaAllocator'')
       (TPointer TInt) = no_write_barrier_policy"
    by (simp add: AllocatorWriteBarrierPolicy_primary_def)
  have none: "calls zero_machine = []"
    by (simp add: zero_machine_def)
  note recycler = C1_guarded_assignment [OF len, of AllocatorInfo_AllocatorType Recycler TInt 16
      zero_machine 32]
  note arena = C1_guarded_assignment [OF len, of AllocatorInfo_AllocatorType
      "OtherAllocator ''ArenaAllocator''" TInt 16 zero_machine 32]
  have wrapper: "WriteBarrierPtrTraits AllocatorInfo_AllocatorType TInt Recycler =
      TWriteBarrierPtr TInt"
    using recycler on required by blast
  have stored: "WriteBarrierPtr_get build_on 16
     (operator_assign build_on (WriteBarrierPtrTraits AllocatorInfo_AllocatorType TInt Recycler)
        16 [1, 2, 3, 4] zero_machine) = [1, 2, 3, 4]"
    using recycler on required by blast
  have "calls
     (operator_assign build_on (WriteBarrierPtrTraits AllocatorInfo_AllocatorType TInt Recycler)
        16 [1, 2, 3, 4] zero_machine) =
     calls zero_machine @ [\<lparr>address = 16, byte_count = None,
        observed = mem (operator_assign build_on
          (WriteBarrierPtrTraits AllocatorInfo_AllocatorType TInt Recycler)
          16 [1, 2, 3, 4] zero_machine)\<rparr>]"
    using recycler on required by blast
  then have once: "length (calls
     (operator_assign build_on (WriteBarrierPtrTraits AllocatorInfo_AllocatorType TInt Recycler)
        16 [1, 2, 3, 4] zero_machine)) = 1"
    by (simp add: none)
  have plain: "WriteBarrierPtrTraits AllocatorInfo_AllocatorType TInt
      (OtherAllocator ''ArenaAllocator'') = TNoWriteBarrierPtr TInt"
    using arena elided by blast
  have kept: "NoWriteBarrierPtr_get build_on 16
     (operator_assign build_on
        (WriteBarrierPtrTraits AllocatorInfo_AllocatorType TInt (OtherAllocator ''ArenaAllocator''))
        16 [1, 2, 3, 4] zero_machine) = [1, 2, 3, 4]"
    using arena elided by blast
  have "calls
     (operator_assign build_on
        (WriteBarrierPtrTraits AllocatorInfo_AllocatorType TInt (OtherAllocator ''ArenaAllocator''))
        16 [1, 2, 3, 4] zero_machine) = calls zero_machine"
    using arena elided by blast
  then have never: "calls
     (operator_assign build_on
        (WriteBarrierPtrTraits AllocatorInfo_AllocatorType TInt (OtherAllocator ''ArenaAllocator''))
        16 [1, 2, 3, 4] zero_machine) = []"
    by (simp only: none)
  show ?thesis
    using wrapper stored once plain kept never by blast
qed

theorem C1_barrier_not_compiled_counterexample:
  "length [1, 2, 3, 4 :: byte] = sizeof_ptr build_off \<and>
   AllocatorWriteBarrierPolicy AllocatorInfo_AllocatorType Recycler (TPointer TInt) =
     write_barrier_policy \<and>
   WriteBarrierPtrTraits AllocatorInfo_AllocatorType TInt Recycler = TWriteBarrierPtr TInt \<and>
   length (calls
     (operator_assign build_off (WriteBarrierPtrTraits AllocatorInfo_AllocatorType TInt Recycler)
        16 [1, 2, 3, 4] zero_machine)) = 0"
  by (simp add: build_off_def zero_machine_def WriteBarrierPtr_assign_def calls_WriteBarrierSet
      WriteBarrierPtrTraits_def AllocatorWriteBarrierPolicy_primary_def)

text \<open>
  C6. The constructor \<open>WriteBarrierPtr(T* ptr)\<close> stores the pointer value and calls no
  hook, whether or not \<open>RECYCLER_WRITE_BARRIER\<close> is defined; and so does the
  constructor of the pointer wrapper of any allocator, whatever the policy.
\<close>

theorem C6_construct_no_hook:
  assumes len: "length p = sizeof_ptr b"
  shows
    "WriteBarrierPtr_get b this (WriteBarrierPtr_init this p s) = p \<and>
     calls (WriteBarrierPtr_init this p s) = calls s \<and>
     read_bytes (mem (construct (WriteBarrierPtrTraits info T A) this p s)) this (sizeof_ptr b) =
       p \<and>
     calls (construct (WriteBarrierPtrTraits info T A) this p s) = calls s"
proof -
  have get: "WriteBarrierPtr_get b this (WriteBarrierPtr_init this p s) = p"
    using len
    by (simp add: WriteBarrierPtr_get_def WriteBarrierPtr_init_def mem_NoWriteBarrierSet
        read_bytes_write_bytes_same)
  have none: "calls (WriteBarrierPtr_init this p s) = calls s"
    by (simp add: WriteBarrierPtr_init_def calls_NoWriteBarrierSet)
  have either:
    "read_bytes (mem (construct (WriteBarrierPtrTraits info T A) this p s)) this (sizeof_ptr b) =
       p \<and>
     calls (construct (WriteBarrierPtrTraits info T A) this p s) = calls s"
    using len WriteBarrierPtrTraits_cases [of info T A]
    by (auto simp: WriteBarrierPtr_init_def NoWriteBarrierPtr_init_def mem_NoWriteBarrierSet
        calls_NoWriteBarrierSet read_bytes_write_bytes_same)
  show ?thesis
    using get none either by simp
qed

theorem C6_construct_no_hook_witness:
  "WriteBarrierPtr_get build_on 16 (WriteBarrierPtr_init 16 [1, 2, 3, 4] zero_machine) =
     [1, 2, 3, 4] \<and>
   calls (WriteBarrierPtr_init 16 [1, 2, 3, 4] zero_machine) = []"
proof -
  have len: "length [1, 2, 3, 4 :: byte] = sizeof_ptr build_on"
    by (simp add: build_on_def)
  show ?thesis
    using C6_construct_no_hook [OF len, of 16 zero_machine AllocatorInfo_AllocatorType TInt
        Recycler]
    by (simp add: zero_machine_def)
qed

section \<open>The array write barrier\<close>

lemma mem_ArrayWriteBarrier: "mem (ArrayWriteBarrier b P sz a n s) = mem s"
  by (simp add: ArrayWriteBarrier_def RecyclerWriteBarrierManager_WriteBarrier_def)

lemma size_t_mul_fits: "x * y < 2 ^ (8 * sizeof_ptr b) \<Longrightarrow> size_t_mul b x y = x * y"
  by (simp add: size_t_mul_def)


lemma mem_WriteBarrier: "mem (WriteBarrier b info A PT sz a n s) = mem s"
  by (simp add: WriteBarrier_def mem_ArrayWriteBarrier)


text \<open>
  C8. Without \<open>RECYCLER_WRITE_BARRIER\<close> the guarded setter is the setter without a
  barrier: for every pointer value the two give the same state, and no hook is called.
  The assignment operator is that setter, and the array write barrier leaves the state
  as it is, for every policy.
\<close>

theorem C8_barrier_not_compiled:
  assumes off: "\<not> RECYCLER_WRITE_BARRIER b"
  shows
    "WriteBarrierSet b this p s = NoWriteBarrierSet this p s \<and>
     WriteBarrierPtr_assign b this p s = NoWriteBarrierSet this p s \<and>
     calls (WriteBarrierSet b this p s) = calls s \<and>
     ArrayWriteBarrier b Policy sizeof_T a count s = s \<and>
     WriteBarrier b info Allocator PolicyType sizeof_T a count s = s"
  using off
  by (simp add: WriteBarrierSet_def WriteBarrierPtr_assign_def calls_NoWriteBarrierSet
      ArrayWriteBarrier_def WriteBarrier_def Let_def)

theorem C8_barrier_not_compiled_witness:
  "WriteBarrierSet build_off 16 [1, 2, 3, 4] zero_machine =
     NoWriteBarrierSet 16 [1, 2, 3, 4] zero_machine \<and>
   calls (WriteBarrierSet build_off 16 [1, 2, 3, 4] zero_machine) = [] \<and>
   WriteBarrier build_off AllocatorInfo_AllocatorType Recycler (TPointer TInt) 4 16 3 zero_machine =
     zero_machine"
proof -
  have off: "\<not> RECYCLER_WRITE_BARRIER build_off"
    by (simp add: build_off_def)
  show ?thesis
    using C8_barrier_not_compiled [OF off, of 16 "[1, 2, 3, 4]" zero_machine
        write_barrier_policy 4 16 3 AllocatorInfo_AllocatorType Recycler "TPointer TInt"]
    by (simp add: calls_NoWriteBarrierSet zero_machine_def)
qed

section \<open>The bulk operations of WriteBarrierPtr\<close>

lemma elements_filled:
  "elements (write_bytes m dst (replicate (sz * n) v)) dst sz n = replicate n (replicate sz v)"
proof -
  have "read_bytes (write_bytes m dst (replicate (sz * n) v)) (dst + i * sz) sz = replicate sz v"
    if "i < n" for i
  proof (rule read_bytes_inside_fill)
    show "dst \<le> dst + i * sz" by simp
    have "i * sz + sz \<le> n * sz"
      using that by (metis Suc_leI mult_Suc mult_le_mono1 add.commute)
    then show "dst + i * sz + sz \<le> dst + sz * n"
      by (simp add: mult.commute)
  qed
  then show ?thesis
    by (intro nth_equalityI) (simp_all add: elements_def)
qed

text \<open>
  C5. Let the destination be an array of \<open>count\<close> elements: one that exists in
  memory, so that its size in bytes is a \<open>size_t\<close>. \<open>ClearArray\<close> leaves every
  byte of the array zero, so each of the \<open>count\<close> slots holds the all-zero pointer,
  and it calls no hook. The operation takes no allocator and no policy, and does the
  same whether or not \<open>RECYCLER_WRITE_BARRIER\<close> is defined.
\<close>

theorem C5_ClearArray:
  assumes fits: "sizeof_ptr b * count < 2 ^ (8 * sizeof_ptr b)"
  shows
  "read_bytes (mem (WriteBarrierPtr_ClearArray b dst count s)) dst (sizeof_ptr b * count) =
     replicate (sizeof_ptr b * count) 0 \<and>
   elements (mem (WriteBarrierPtr_ClearArray b dst count s)) dst (sizeof_ptr b) count =
     replicate count (replicate (sizeof_ptr b) 0) \<and>
   (i < count \<longrightarrow>
      WriteBarrierPtr_get b (dst + i * sizeof_ptr b) (WriteBarrierPtr_ClearArray b dst count s) =
        replicate (sizeof_ptr b) 0) \<and>
   calls (WriteBarrierPtr_ClearArray b dst count s) = calls s"
proof -
  let ?s' = "WriteBarrierPtr_ClearArray b dst count s"
  have m: "mem ?s' = write_bytes (mem s) dst (replicate (sizeof_ptr b * count) 0)"
    using fits by (simp add: WriteBarrierPtr_ClearArray_def memset_def size_t_mul_fits)
  have range: "read_bytes (mem ?s') dst (sizeof_ptr b * count) = replicate (sizeof_ptr b * count) 0"
    by (simp add: m read_bytes_write_bytes_same)
  have slots: "elements (mem ?s') dst (sizeof_ptr b) count =
      replicate count (replicate (sizeof_ptr b) 0)"
    by (simp only: m elements_filled)
  have slot: "i < count \<longrightarrow>
      WriteBarrierPtr_get b (dst + i * sizeof_ptr b) ?s' = replicate (sizeof_ptr b) 0"
  proof
    assume "i < count"
    then have "elements (mem ?s') dst (sizeof_ptr b) count ! i =
        read_bytes (mem ?s') (dst + i * sizeof_ptr b) (sizeof_ptr b)"
      by (simp add: elements_def)
    with \<open>i < count\<close> show
      "WriteBarrierPtr_get b (dst + i * sizeof_ptr b) ?s' = replicate (sizeof_ptr b) 0"
      by (simp add: slots WriteBarrierPtr_get_def)
  qed
  have none: "calls ?s' = calls s"
    by (simp add: WriteBarrierPtr_ClearArray_def memset_def)
  show ?thesis
    using range slots slot none by simp
qed

theorem C5_ClearArray_witness:
  "WriteBarrierPtr_get build_on 20
     (WriteBarrierPtr_ClearArray build_on 16 2
        (WriteBarrierPtr_assign build_on 20 [1, 2, 3, 4] zero_machine)) = replicate 4 0 \<and>
   WriteBarrierPtr_get build_on 20
     (WriteBarrierPtr_assign build_on 20 [1, 2, 3, 4] zero_machine) = [1, 2, 3, 4] \<and>
   calls (WriteBarrierPtr_ClearArray build_on 16 2
        (WriteBarrierPtr_assign build_on 20 [1, 2, 3, 4] zero_machine)) =
     calls (WriteBarrierPtr_assign build_on 20 [1, 2, 3, 4] zero_machine)"
proof -
  have before: "WriteBarrierPtr_get build_on 20
     (WriteBarrierPtr_assign build_on 20 [1, 2, 3, 4] zero_machine) = [1, 2, 3, 4]"
    by (simp add: WriteBarrierPtr_assign_def WriteBarrierPtr_get_after_set build_on_def)
  have fits: "sizeof_ptr build_on * 2 < 2 ^ (8 * sizeof_ptr build_on)"
    by (simp add: build_on_def)
  show ?thesis
    using C5_ClearArray [OF fits, of 16
        "WriteBarrierPtr_assign build_on 20 [1, 2, 3, 4] zero_machine" 1] before
    by (simp add: build_on_def)
qed

section \<open>Bulk copies and element by element assignment\<close>











lemma calls_assign_each_WriteBarrierPtr:
  "length (calls (assign_each (WriteBarrierPtr_assign b) sz dst vs s)) =
     length (calls s) + (if RECYCLER_WRITE_BARRIER b then length vs else 0)"
  by (induction vs arbitrary: dst s)
    (simp_all add: WriteBarrierPtr_assign_def calls_WriteBarrierSet)

lemma mem_memmove:
  "mem (memmove dst src n s) = write_bytes (mem s) dst (read_bytes (mem s) src n)"
  by (simp add: memmove_def)


lemma calls_memmove: "calls (memmove dst src n s) = calls s"
  by (simp add: memmove_def)

lemma calls_js_memcpy_s: "calls (js_memcpy_s dst k src n s) = calls s"
  by (simp add: js_memcpy_s_def)


lemma mem_WriteBarrierPtr_MoveArray:
  "sizeof_ptr b * n < 2 ^ (8 * sizeof_ptr b) \<Longrightarrow>
   mem (WriteBarrierPtr_MoveArray b info T dst src n s) =
     write_bytes (mem s) dst (read_bytes (mem s) src (sizeof_ptr b * n))"
  by (simp add: WriteBarrierPtr_MoveArray_def mem_WriteBarrier mem_memmove size_t_mul_fits)







lemma CopyArray_through_wrappers:
  "CopyArray_WriteBarrierPtr b info A PT sz dst dstCount src srcCount s =
     CopyArray b info A PT sz (pointer_address (WriteBarrierPtr_get b dst s)) dstCount
       (pointer_address (WriteBarrierPtr_get b src s)) srcCount s \<and>
   CopyArray_NoWriteBarrierPtr b info A PT sz dst dstCount src srcCount s =
     CopyArray b info A PT sz (pointer_address (NoWriteBarrierPtr_get b dst s)) dstCount
       (pointer_address (NoWriteBarrierPtr_get b src s)) srcCount s"
  by (simp add: CopyArray_WriteBarrierPtr_def CopyArray_NoWriteBarrierPtr_def
      WriteBarrierPtr_get_def NoWriteBarrierPtr_get_def)




text \<open>
  A loop upwards over live memory is not \<open>MoveArray\<close> when the destination starts
  inside the source range: it copies the first element over the second before it
  reads the second.
\<close>

lemma MoveArray_upward_loop_overlap:
  "WriteBarrierPtr_get build_on 40
     (WriteBarrierPtr_MoveArray build_on AllocatorInfo_AllocatorType TInt 36 32 2 two_pointers) =
     [5, 6, 7, 8] \<and>
   WriteBarrierPtr_get build_on 40
     (assign_loop (WriteBarrierPtr_assign build_on) (sizeof_ptr build_on) 36 32 2 two_pointers) =
     [1, 2, 3, 4]"
proof -
  have fits: "sizeof_ptr build_on * 2 < 2 ^ (8 * sizeof_ptr build_on)"
    by (simp add: build_on_def)
  have moved: "read_bytes
      (write_bytes (mem two_pointers) 36 (read_bytes (mem two_pointers) 32 (sizeof_ptr build_on * 2)))
      40 (sizeof_ptr build_on) = [5, 6, 7, 8]"
    by code_simp
  have looped: "WriteBarrierPtr_get build_on 40
     (assign_loop (WriteBarrierPtr_assign build_on) (sizeof_ptr build_on) 36 32 2 two_pointers) =
     [1, 2, 3, 4]"
    by code_simp
  show ?thesis
    using moved looped
    by (simp only: WriteBarrierPtr_get_def mem_WriteBarrierPtr_MoveArray [OF fits])
qed

section \<open>Paths to the stored pointer\<close>

lemma memmove_call_rejected:
  "isl (memmove_call found D dst src n s) \<longleftrightarrow>
     found = overload_found \<and> is_WriteBarrierPtr_pointer D"
  by (induction found D dst src n s rule: memmove_call.induct) simp_all

lemma js_memcpy_s_call_rejected:
  "isl (js_memcpy_s_call found D dst k src n s) \<longleftrightarrow>
     found = overload_found \<and> is_WriteBarrierPtr_pointer D"
  by (induction found D dst k src n s rule: js_memcpy_s_call.induct) simp_all

lemma memset_call_rejected:
  "isl (memset_call found D dst x n s) \<longleftrightarrow>
     found = overload_found \<and> is_WriteBarrierPtr_pointer D"
  by (induction found D dst x n s rule: memset_call.induct) simp_all

lemma memmove_call_accepted:
  "\<not> (found = overload_found \<and> is_WriteBarrierPtr_pointer D) \<Longrightarrow>
   memmove_call found D dst src n s = Inr (memmove dst src n s)"
  by (induction found D dst src n s rule: memmove_call.induct) simp_all

lemma js_memcpy_s_call_accepted:
  "\<not> (found = overload_found \<and> is_WriteBarrierPtr_pointer D) \<Longrightarrow>
   js_memcpy_s_call found D dst k src n s = Inr (js_memcpy_s dst k src n s)"
  by (induction found D dst k src n s rule: js_memcpy_s_call.induct) simp_all

lemma memset_call_accepted:
  "\<not> (found = overload_found \<and> is_WriteBarrierPtr_pointer D) \<Longrightarrow>
   memset_call found D dst x n s = Inr (memset dst x n s)"
  by (induction found D dst x n s rule: memset_call.induct) simp_all

lemma WriteBarrierPtr_get_after_memset:
  "dst \<le> this \<Longrightarrow> this + sizeof_ptr b \<le> dst + n \<Longrightarrow>
   WriteBarrierPtr_get b this (memset dst x n s) = replicate (sizeof_ptr b) x"
  by (simp add: WriteBarrierPtr_get_def memset_def read_bytes_inside_fill)

lemma read_bytes_after_memmove:
  "read_bytes (mem (memmove dst src n s)) dst n = read_bytes (mem s) src n"
  by (simp add: memmove_def read_bytes_write_bytes_same length_read_bytes)

lemma read_bytes_after_js_memcpy_s:
  "read_bytes (mem (js_memcpy_s dst n src n s)) dst n = read_bytes (mem s) src n"
  by (simp add: js_memcpy_s_def read_bytes_write_bytes_same length_read_bytes)

lemma store_through_rejected:
  "isl (store_through q p s) \<longleftrightarrow> (\<exists>a. q = PointerToConst a)"
  by (cases q) simp_all

text \<open>
  The calls the header itself makes compile, as its functions above have them: the one
  in \<open>CopyArray\<close> (line 138) finds no template, and the ones in the bulk operations
  of \<open>WriteBarrierPtr\<close> (lines 285-301) cast the destination to \<open>void*\<close>.
\<close>

lemma calls_of_the_header_compile:
  "js_memcpy_s_call overload_not_found (TPointer T) dst k src n s =
     Inr (js_memcpy_s dst k src n s) \<and>
   memmove_call found (TPointer (TNamed ''void'')) dst src n s = Inr (memmove dst src n s) \<and>
   js_memcpy_s_call found (TPointer (TNamed ''void'')) dst k src n s =
     Inr (js_memcpy_s dst k src n s) \<and>
   memset_call found (TPointer (TNamed ''void'')) dst x n s = Inr (memset dst x n s)"
  by (simp add: memmove_call_accepted js_memcpy_s_call_accepted memset_call_accepted)

text \<open>
  C7, as the header has it. What does not compile: a call of \<open>memmove\<close>,
  \<open>js_memcpy_s\<close> or \<open>memset\<close> exactly when it selects one of the header's
  templates (the destination has the static type \<open>WriteBarrierPtr<T>*\<close> and name
  lookup finds the template), and a store through the pointer that \<open>operator&\<close> of a
  \<open>WriteBarrierPtr\<close> gives, which is a pointer to \<open>const\<close> for a mutable object too.
  What compiles, changes the stored bits and calls no hook: a store through the pointer
  that \<open>AddressOf\<close> gives for a mutable \<open>WriteBarrierPtr\<close>, which does what
  \<open>NoWriteBarrierSet\<close> does; every call of the three functions that selects no
  template, over a range that holds guarded slots; and every call of \<open>memcpy\<close>, for
  which the header has no template.
\<close>

theorem C7_bypass_paths:
  "(isl (memmove_call found D dst src n s) \<longleftrightarrow>
      found = overload_found \<and> is_WriteBarrierPtr_pointer D) \<and>
   (isl (js_memcpy_s_call found D dst n src n s) \<longleftrightarrow>
      found = overload_found \<and> is_WriteBarrierPtr_pointer D) \<and>
   (isl (memset_call found D dst x n s) \<longleftrightarrow>
      found = overload_found \<and> is_WriteBarrierPtr_pointer D) \<and>
   \<not> isl (memcpy_call D dst src n s) \<and>
   isl (store_through (WriteBarrierPtr_operator_address obj this) p s) \<and>
   (isl (store_through (WriteBarrierPtr_AddressOf obj this) p s) \<longleftrightarrow> obj = ConstObject) \<and>
   store_through (WriteBarrierPtr_AddressOf MutableObject this) p s =
     Inr (NoWriteBarrierSet this p s) \<and>
   (length p = sizeof_ptr b \<longrightarrow>
      WriteBarrierPtr_get b this (NoWriteBarrierSet this p s) = p) \<and>
   calls (NoWriteBarrierSet this p s) = calls s \<and>
   (\<not> (found = overload_found \<and> is_WriteBarrierPtr_pointer D) \<longrightarrow>
      memset_call found D dst x n s = Inr (memset dst x n s) \<and>
      memmove_call found D dst src n s = Inr (memmove dst src n s) \<and>
      js_memcpy_s_call found D dst n src n s = Inr (js_memcpy_s dst n src n s)) \<and>
   (dst + n \<le> src \<or> src + n \<le> dst \<longrightarrow>
      memcpy_call D dst src n s = Inr (Some (memmove dst src n s))) \<and>
   (dst \<le> this \<and> this + sizeof_ptr b \<le> dst + n \<longrightarrow>
      WriteBarrierPtr_get b this (memset dst x n s) = replicate (sizeof_ptr b) x) \<and>
   calls (memset dst x n s) = calls s \<and>
   read_bytes (mem (memmove dst src n s)) dst n = read_bytes (mem s) src n \<and>
   calls (memmove dst src n s) = calls s \<and>
   read_bytes (mem (js_memcpy_s dst n src n s)) dst n = read_bytes (mem s) src n \<and>
   calls (js_memcpy_s dst n src n s) = calls s"
proof -
  have raw:
    "isl (memmove_call found D dst src n s) \<longleftrightarrow>
       found = overload_found \<and> is_WriteBarrierPtr_pointer D"
    "isl (js_memcpy_s_call found D dst n src n s) \<longleftrightarrow>
       found = overload_found \<and> is_WriteBarrierPtr_pointer D"
    "isl (memset_call found D dst x n s) \<longleftrightarrow>
       found = overload_found \<and> is_WriteBarrierPtr_pointer D"
    by (rule memmove_call_rejected js_memcpy_s_call_rejected memset_call_rejected)+
  have copy: "\<not> isl (memcpy_call D dst src n s)"
    by (simp add: memcpy_call_def)
  have amp: "isl (store_through (WriteBarrierPtr_operator_address obj this) p s)"
    by (simp add: store_through_rejected)
  have addr: "isl (store_through (WriteBarrierPtr_AddressOf obj this) p s) \<longleftrightarrow> obj = ConstObject"
    by (cases obj) simp_all
  have set: "store_through (WriteBarrierPtr_AddressOf MutableObject this) p s =
      Inr (NoWriteBarrierSet this p s)"
    by (simp add: NoWriteBarrierSet_def)
  have stored: "length p = sizeof_ptr b \<longrightarrow>
      WriteBarrierPtr_get b this (NoWriteBarrierSet this p s) = p"
    by (simp add: WriteBarrierPtr_get_def mem_NoWriteBarrierSet read_bytes_write_bytes_same)
  have accepted: "\<not> (found = overload_found \<and> is_WriteBarrierPtr_pointer D) \<longrightarrow>
      memset_call found D dst x n s = Inr (memset dst x n s) \<and>
      memmove_call found D dst src n s = Inr (memmove dst src n s) \<and>
      js_memcpy_s_call found D dst n src n s = Inr (js_memcpy_s dst n src n s)"
    using memset_call_accepted [of found D dst x n s] memmove_call_accepted [of found D dst src n s]
      js_memcpy_s_call_accepted [of found D dst n src n s]
    by blast
  have disjoint: "dst + n \<le> src \<or> src + n \<le> dst \<longrightarrow>
      memcpy_call D dst src n s = Inr (Some (memmove dst src n s))"
    by (simp add: memcpy_call_def memcpy_def)
  have wiped: "dst \<le> this \<and> this + sizeof_ptr b \<le> dst + n \<longrightarrow>
      WriteBarrierPtr_get b this (memset dst x n s) = replicate (sizeof_ptr b) x"
    by (simp add: WriteBarrierPtr_get_after_memset)
  have silent: "calls (NoWriteBarrierSet this p s) = calls s" "calls (memset dst x n s) = calls s"
    "calls (memmove dst src n s) = calls s" "calls (js_memcpy_s dst n src n s) = calls s"
    by (simp_all add: calls_NoWriteBarrierSet memset_def calls_memmove calls_js_memcpy_s)
  show ?thesis
    using raw copy amp addr set stored accepted disjoint wiped silent
      read_bytes_after_memmove [of dst src n s] read_bytes_after_js_memcpy_s [of dst n src s]
    by blast
qed

theorem C7_bypass_paths_witness:
  "isl (memset_call overload_found (TPointer (TWriteBarrierPtr TInt)) 32 0 8 two_pointers) \<and>
   memset_call overload_found (TPointer (TNamed ''void'')) 32 0 8 two_pointers =
     Inr (memset 32 0 8 two_pointers) \<and>
   WriteBarrierPtr_get build_on 36 (memset 32 0 8 two_pointers) =
     replicate (sizeof_ptr build_on) 0 \<and>
   isl (store_through (WriteBarrierPtr_operator_address MutableObject 36) [1, 2, 3, 4]
     two_pointers) \<and>
   store_through (WriteBarrierPtr_AddressOf MutableObject 36) [1, 2, 3, 4] two_pointers =
     Inr (NoWriteBarrierSet 36 [1, 2, 3, 4] two_pointers) \<and>
   WriteBarrierPtr_get build_on 36 (NoWriteBarrierSet 36 [1, 2, 3, 4] two_pointers) =
     [1, 2, 3, 4]"
proof -
  note typed = C7_bypass_paths [of overload_found "TPointer (TWriteBarrierPtr TInt)" 32 16 8
      two_pointers 0 MutableObject 36 "[1, 2, 3, 4]" build_on]
  note void = C7_bypass_paths [of overload_found "TPointer (TNamed ''void'')" 32 16 8
      two_pointers 0 MutableObject 36 "[1, 2, 3, 4]" build_on]
  have guarded: "is_WriteBarrierPtr_pointer (TPointer (TWriteBarrierPtr TInt))"
    and plain: "\<not> is_WriteBarrierPtr_pointer (TPointer (TNamed ''void''))"
    and len: "length [1, 2, 3, 4 :: byte] = sizeof_ptr build_on"
    and inside: "(32::nat) \<le> 36 \<and> 36 + sizeof_ptr build_on \<le> 32 + 8"
    by (simp_all add: build_on_def)
  have rejected: "isl (memset_call overload_found (TPointer (TWriteBarrierPtr TInt)) 32 0 8
      two_pointers)"
    using typed guarded by blast
  have compiles: "memset_call overload_found (TPointer (TNamed ''void'')) 32 0 8 two_pointers =
      Inr (memset 32 0 8 two_pointers)"
    using void plain by blast
  have wiped: "WriteBarrierPtr_get build_on 36 (memset 32 0 8 two_pointers) =
      replicate (sizeof_ptr build_on) 0"
    using void inside by blast
  have amp: "isl (store_through (WriteBarrierPtr_operator_address MutableObject 36) [1, 2, 3, 4]
      two_pointers)"
    using void by blast
  have set: "store_through (WriteBarrierPtr_AddressOf MutableObject 36) [1, 2, 3, 4] two_pointers =
      Inr (NoWriteBarrierSet 36 [1, 2, 3, 4] two_pointers)"
    using void by blast
  have stored: "WriteBarrierPtr_get build_on 36 (NoWriteBarrierSet 36 [1, 2, 3, 4] two_pointers) =
      [1, 2, 3, 4]"
    using void len by blast
  show ?thesis
    using rejected compiles wiped amp set stored by blast
qed

text \<open>
  Four paths that compile and change a guarded slot without a call of the hook, none of
  them the guarded setter, the setter without a barrier or a bulk operation of
  \<open>WriteBarrierPtr\<close>: a store through \<open>AddressOf\<close>; \<open>memset\<close> through
  \<open>void*\<close> over a range of two guarded slots; \<open>memcpy\<close> with a destination of type
  \<open>WriteBarrierPtr<int>*\<close>; and \<open>js_memcpy_s\<close> with such a destination where
  name lookup does not find the template.
\<close>

theorem C7_bypass_counterexample:
  "store_through (WriteBarrierPtr_AddressOf MutableObject 36) [1, 2, 3, 4] two_pointers =
     Inr (NoWriteBarrierSet 36 [1, 2, 3, 4] two_pointers) \<and>
   WriteBarrierPtr_get build_on 36 two_pointers = [5, 6, 7, 8] \<and>
   WriteBarrierPtr_get build_on 36 (NoWriteBarrierSet 36 [1, 2, 3, 4] two_pointers) =
     [1, 2, 3, 4] \<and>
   calls (NoWriteBarrierSet 36 [1, 2, 3, 4] two_pointers) = [] \<and>
   memset_call overload_found (TPointer (TNamed ''void'')) 32 0 8 two_pointers =
     Inr (memset 32 0 8 two_pointers) \<and>
   WriteBarrierPtr_get build_on 36 (memset 32 0 8 two_pointers) = [0, 0, 0, 0] \<and>
   calls (memset 32 0 8 two_pointers) = [] \<and>
   memcpy_call (TPointer (TWriteBarrierPtr TInt)) 36 32 4 two_pointers =
     Inr (Some (memmove 36 32 4 two_pointers)) \<and>
   WriteBarrierPtr_get build_on 36 (memmove 36 32 4 two_pointers) = [1, 2, 3, 4] \<and>
   calls (memmove 36 32 4 two_pointers) = [] \<and>
   js_memcpy_s_call overload_not_found (TPointer (TWriteBarrierPtr TInt)) 36 4 32 4 two_pointers =
     Inr (js_memcpy_s 36 4 32 4 two_pointers) \<and>
   WriteBarrierPtr_get build_on 36 (js_memcpy_s 36 4 32 4 two_pointers) = [1, 2, 3, 4] \<and>
   calls (js_memcpy_s 36 4 32 4 two_pointers) = []"
proof -
  have before: "WriteBarrierPtr_get build_on 36 two_pointers = [5, 6, 7, 8]"
    by code_simp
  have set: "WriteBarrierPtr_get build_on 36 (NoWriteBarrierSet 36 [1, 2, 3, 4] two_pointers) =
      [1, 2, 3, 4]"
    by code_simp
  have wiped: "WriteBarrierPtr_get build_on 36 (memset 32 0 8 two_pointers) = [0, 0, 0, 0]"
    by code_simp
  have moved: "WriteBarrierPtr_get build_on 36 (memmove 36 32 4 two_pointers) = [1, 2, 3, 4]"
    by code_simp
  have copied: "WriteBarrierPtr_get build_on 36 (js_memcpy_s 36 4 32 4 two_pointers) =
      [1, 2, 3, 4]"
    by code_simp
  have silent: "calls (NoWriteBarrierSet 36 [1, 2, 3, 4] two_pointers) = []"
    "calls (memset 32 0 8 two_pointers) = []"
    "calls (memmove 36 32 4 two_pointers) = []"
    "calls (js_memcpy_s 36 4 32 4 two_pointers) = []"
    by (simp_all add: calls_NoWriteBarrierSet memset_def calls_memmove calls_js_memcpy_s
        two_pointers_def)
  have compile:
    "store_through (WriteBarrierPtr_AddressOf MutableObject 36) [1, 2, 3, 4] two_pointers =
       Inr (NoWriteBarrierSet 36 [1, 2, 3, 4] two_pointers)"
    "memset_call overload_found (TPointer (TNamed ''void'')) 32 0 8 two_pointers =
       Inr (memset 32 0 8 two_pointers)"
    "memcpy_call (TPointer (TWriteBarrierPtr TInt)) 36 32 4 two_pointers =
       Inr (Some (memmove 36 32 4 two_pointers))"
    "js_memcpy_s_call overload_not_found (TPointer (TWriteBarrierPtr TInt)) 36 4 32 4
       two_pointers = Inr (js_memcpy_s 36 4 32 4 two_pointers)"
    by (simp_all add: NoWriteBarrierSet_def memcpy_call_def memcpy_def)
  show ?thesis
    using before set wiped moved copied silent compile by blast
qed

text \<open>
  C10. \<open>operator&\<close> of a mutable \<open>NoWriteBarrierPtr\<close> or \<open>NoWriteBarrierField\<close>,
  and the conversion of a mutable \<open>NoWriteBarrierField\<close> to \<open>T&\<close>, give a mutable
  pointer or reference to the stored value itself. A store through it compiles and
  leaves the state the wrapper's assignment would leave, with the stored bits changed,
  without a call of the assignment operator. \<open>operator&\<close> of a mutable
  \<open>WriteBarrierPtr\<close> gives a pointer to \<open>const\<close>, and a store through that one
  does not compile.
\<close>

theorem C10_companion_addresses:
  "NoWriteBarrierPtr_operator_address MutableObject this = PointerToMutable this \<and>
   NoWriteBarrierField_operator_address MutableObject this = PointerToMutable this \<and>
   NoWriteBarrierField_reference MutableObject this = PointerToMutable this \<and>
   store_through (NoWriteBarrierPtr_operator_address MutableObject this) v s =
     Inr (NoWriteBarrierPtr_assign this v s) \<and>
   store_through (NoWriteBarrierField_operator_address MutableObject this) v s =
     Inr (NoWriteBarrierField_assign this v s) \<and>
   store_through (NoWriteBarrierField_reference MutableObject this) v s =
     Inr (NoWriteBarrierField_assign this v s) \<and>
   read_bytes (mem (NoWriteBarrierPtr_assign this v s)) this (length v) = v \<and>
   read_bytes (mem (NoWriteBarrierField_assign this v s)) this (length v) = v \<and>
   calls (NoWriteBarrierPtr_assign this v s) = calls s \<and>
   calls (NoWriteBarrierField_assign this v s) = calls s \<and>
   WriteBarrierPtr_operator_address MutableObject this = PointerToConst this \<and>
   store_through (WriteBarrierPtr_operator_address MutableObject this) v s =
     Inl assignment_to_const"
  by (simp add: NoWriteBarrierPtr_assign_def NoWriteBarrierField_assign_def
      read_bytes_write_bytes_same)

theorem C10_companion_addresses_witness:
  "store_through (NoWriteBarrierPtr_operator_address MutableObject 16) [1, 2, 3, 4] zero_machine =
     Inr (NoWriteBarrierPtr_assign 16 [1, 2, 3, 4] zero_machine) \<and>
   NoWriteBarrierPtr_get build_on 16 (NoWriteBarrierPtr_assign 16 [1, 2, 3, 4] zero_machine) =
     [1, 2, 3, 4] \<and>
   store_through (WriteBarrierPtr_operator_address MutableObject 16) [1, 2, 3, 4] zero_machine =
     Inl assignment_to_const"
proof -
  note all = C10_companion_addresses [of 16 "[1, 2, 3, 4]" zero_machine]
  have "read_bytes (mem (NoWriteBarrierPtr_assign 16 [1, 2, 3, 4] zero_machine)) 16
      (length [1, 2, 3, 4 :: byte]) = [1, 2, 3, 4]"
    using all by blast
  moreover have "length [1, 2, 3, 4 :: byte] = sizeof_ptr build_on"
    by (simp add: build_on_def)
  ultimately have get: "NoWriteBarrierPtr_get build_on 16
      (NoWriteBarrierPtr_assign 16 [1, 2, 3, 4] zero_machine) = [1, 2, 3, 4]"
    by (simp only: NoWriteBarrierPtr_get_def)
  show ?thesis
    using all get by blast
qed

section \<open>min and max\<close>

text \<open>
  C9. On a linearly ordered type, each of the three \<open>min\<close> overloads gives the smaller
  and each of the three \<open>max\<close> overloads the larger of the two values, as the
  comparison of the unwrapped values does, whichever operands are wrapped and in either
  order of the arguments. The overloads are functions of their operands' values: they
  take both by \<open>const\<close> reference and write to neither.
\<close>

theorem C9_min_max:
  fixes a b :: "'a::linorder"
  shows
    "min_T_Field a (NoWriteBarrierField b) = min a b \<and>
     min_Field_T (NoWriteBarrierField a) b = min a b \<and>
     min_Field_Field (NoWriteBarrierField a) (NoWriteBarrierField b) = min a b \<and>
     max_T_Field a (NoWriteBarrierField b) = max a b \<and>
     max_Field_T (NoWriteBarrierField a) b = max a b \<and>
     max_Field_Field (NoWriteBarrierField a) (NoWriteBarrierField b) = max a b \<and>
     min_T_Field a (NoWriteBarrierField b) = min_Field_T (NoWriteBarrierField b) a \<and>
     min_Field_Field (NoWriteBarrierField a) (NoWriteBarrierField b) =
       min_Field_Field (NoWriteBarrierField b) (NoWriteBarrierField a) \<and>
     max_T_Field a (NoWriteBarrierField b) = max_Field_T (NoWriteBarrierField b) a \<and>
     max_Field_Field (NoWriteBarrierField a) (NoWriteBarrierField b) =
       max_Field_Field (NoWriteBarrierField b) (NoWriteBarrierField a)"
proof -
  have mins:
    "min_T_Field a (NoWriteBarrierField b) = min a b"
    "min_Field_T (NoWriteBarrierField a) b = min a b"
    "min_Field_Field (NoWriteBarrierField a) (NoWriteBarrierField b) = min a b"
    "min_Field_T (NoWriteBarrierField b) a = min a b"
    "min_Field_Field (NoWriteBarrierField b) (NoWriteBarrierField a) = min a b"
    by (auto simp: min_T_Field_def min_Field_T_def min_Field_Field_def min_def)
  have maxs:
    "max_T_Field a (NoWriteBarrierField b) = max a b"
    "max_Field_T (NoWriteBarrierField a) b = max a b"
    "max_Field_Field (NoWriteBarrierField a) (NoWriteBarrierField b) = max a b"
    "max_Field_T (NoWriteBarrierField b) a = max a b"
    "max_Field_Field (NoWriteBarrierField b) (NoWriteBarrierField a) = max a b"
    by (auto simp: max_T_Field_def max_Field_T_def max_Field_Field_def max_def)
  show ?thesis
    by (simp only: mins maxs)
qed

theorem C9_min_max_witness:
  "min_T_Field (3::int) (NoWriteBarrierField 5) = 3 \<and>
   min_Field_T (NoWriteBarrierField (5::int)) 3 = 3 \<and>
   max_Field_Field (NoWriteBarrierField (3::int)) (NoWriteBarrierField 5) = 5 \<and>
   max_T_Field (5::int) (NoWriteBarrierField 5) = 5"
  using C9_min_max [of "3::int" 5] C9_min_max [of "5::int" 3] C9_min_max [of "5::int" 5]
  by simp

end
